theory Spec2Isabelle
  imports Complex_Main
begin

section \<open>Consensus and adaptation core of the exoplanet discovery system\<close>

text \<open>
  The functions below embed methods of \<^verbatim>\<open>CompleteScientificCalculator\<close>
  (\<^verbatim>\<open>llm-training/complete_scientific_formulas.py\<close>) and the feedback route of
  \<^verbatim>\<open>EnhancedExoplanetAPI\<close> (\<^verbatim>\<open>web-app/llm-backend/enhanced_api_server.py\<close>).

  Python's \<^verbatim>\<open>float\<close> is read as \<^typ>\<open>real\<close>: every statement below is about exact
  real arithmetic, not about IEEE rounding. The two places where the source can produce a
  value that is no real number (NaN from \<^verbatim>\<open>np.var\<close> of an empty list or \<^verbatim>\<open>np.sqrt\<close> of
  a negative number, a complex number from a fractional power of a negative base) are
  branches of the model. A returned dictionary is a record whose fields are the
  dictionary's keys behind a short tag naming the method; the constant documentation
  string stored under the key \<^verbatim>\<open>formula\<close> is left out.
\<close>

subsection \<open>Exceptions\<close>

datatype py_error =
    ValueError
  | ZeroDivisionError
  | IndexError
  | Not_a_real  \<comment> \<open>no exception: the source goes on with NaN or a complex number\<close>

subsection \<open>Physical constants\<close>

definition G :: real where "G = 6.67430 / 10 ^ 11"
definition AU :: real where "AU = 1.495978707 * 10 ^ 11"
definition M_sun :: real where "M_sun = 1.989 * 10 ^ 30"
definition M_earth :: real where "M_earth = 5.972 * 10 ^ 24"

subsection \<open>\<^verbatim>\<open>feedback_based_knowledge_weight\<close>\<close>

record feedback_result =
  fb_original_weight :: real
  fb_updated_weight :: real
  fb_weight_change :: real
  fb_prediction :: real
  fb_human_feedback :: bool
  fb_binary_cross_entropy_loss :: real
  fb_loss_gradient :: real
  fb_learning_rate :: real

definition feedback_based_knowledge_weight ::
  "real \<Rightarrow> real \<Rightarrow> bool \<Rightarrow> real \<Rightarrow> feedback_result" where
  "feedback_based_knowledge_weight current_weight prediction human_feedback learning_rate =
    (let h = (if human_feedback then 1 else 0);
         P = max 0.001 (min 0.999 prediction);
         L = - h * ln P - (1 - h) * ln (1 - P);
         dL_dP = - h / P + (1 - h) / (1 - P);
         weight_adjustment =
           learning_rate * dL_dP * (if human_feedback then 0.01 else - 0.01);
         new_weight = max 0.1 (min 2 (current_weight - weight_adjustment))
     in \<lparr>fb_original_weight = current_weight,
         fb_updated_weight = new_weight,
         fb_weight_change = new_weight - current_weight,
         fb_prediction = prediction,
         fb_human_feedback = human_feedback,
         fb_binary_cross_entropy_loss = L,
         fb_loss_gradient = dL_dP,
         fb_learning_rate = learning_rate\<rparr>)"

text \<open>The update rule in the words of the specification, section 4.4.\<close>

definition clamp :: "real \<Rightarrow> real \<Rightarrow> real \<Rightarrow> real" where
  "clamp x lo hi = (if x < lo then lo else if hi < x then hi else x)"

definition spec_loss_gradient :: "real \<Rightarrow> bool \<Rightarrow> real" where
  "spec_loss_gradient p is_correct =
    (let h = (if is_correct then 1 else 0); P = clamp p 0.001 0.999
     in - h / P + (1 - h) / (1 - P))"

definition spec_adjustment :: "real \<Rightarrow> real \<Rightarrow> bool \<Rightarrow> real" where
  "spec_adjustment eta p is_correct =
    eta * spec_loss_gradient p is_correct * (if is_correct then 0.01 else - 0.01)"

definition spec_new_weight :: "real \<Rightarrow> real \<Rightarrow> bool \<Rightarrow> real \<Rightarrow> real" where
  "spec_new_weight w p is_correct eta = clamp (w - spec_adjustment eta p is_correct) 0.1 2"

subsection \<open>\<^verbatim>\<open>aggregate_prediction\<close>\<close>

text \<open>
  \<^verbatim>\<open>np.var\<close> with its default \<^verbatim>\<open>ddof=0\<close>: the mean of the squared deviations from the
  mean. On an empty list numpy returns NaN (with a warning), here \<open>None\<close>.
\<close>

definition mean :: "real list \<Rightarrow> real" where
  "mean xs = sum_list xs / real (length xs)"

definition np_var :: "real list \<Rightarrow> real option" where
  "np_var xs =
    (if xs = [] then None else Some (mean (map (\<lambda>x. (x - mean xs) ^ 2) xs)))"

record prediction_aggregate =
  ap_aggregated_prediction :: real
  ap_individual_predictions :: "real list"
  ap_weights :: "real list"
  ap_prediction_variance :: "real option"
  ap_confidence :: real
  ap_total_weight :: real

text \<open>
  Python's \<^verbatim>\<open>min(1.0, x)\<close> returns its first argument unless \<^verbatim>\<open>x < 1.0\<close>, so it is
  \<^verbatim>\<open>1.0\<close> when \<^verbatim>\<open>x\<close> is NaN.
\<close>

definition aggregate_prediction :: "real list \<Rightarrow> real list \<Rightarrow> py_error + prediction_aggregate" where
  "aggregate_prediction predictions weights =
    (if length predictions \<noteq> length weights then Inl ValueError
     else
       let weighted_sum = sum_list (map (\<lambda>(p, w). p * w) (zip predictions weights));
           total_weight = sum_list weights;
           aggregated_prediction =
             (if total_weight > 0 then weighted_sum / total_weight else 0.5);
           prediction_variance = np_var predictions;
           confidence =
             1 - (case prediction_variance of None \<Rightarrow> 1 | Some v \<Rightarrow> min 1 (2 * v))
       in Inr \<lparr>ap_aggregated_prediction = aggregated_prediction,
               ap_individual_predictions = predictions,
               ap_weights = weights,
               ap_prediction_variance = prediction_variance,
               ap_confidence = confidence,
               ap_total_weight = total_weight\<rparr>)"

text \<open>The aggregation in the words of the specification, section 4.3.\<close>

definition weighted_mean :: "real list \<Rightarrow> real list \<Rightarrow> real" where
  "weighted_mean ps ws = (\<Sum>i<length ps. ws ! i * ps ! i) / (\<Sum>i<length ws. ws ! i)"

definition population_variance :: "real list \<Rightarrow> real" where
  "population_variance ps =
    (\<Sum>i<length ps. (ps ! i - (\<Sum>j<length ps. ps ! j) / real (length ps)) ^ 2)
      / real (length ps)"

subsection \<open>\<^verbatim>\<open>explanation_aggregation\<close>\<close>

text \<open>Decimal rendering of \<^verbatim>\<open>i+1\<close> in the f-string \<^verbatim>\<open>f'helper_{i+1}'\<close>.\<close>

fun str_nat :: "nat \<Rightarrow> string" where
  "str_nat n =
    (if n < 10 then [''0123456789'' ! n]
     else str_nat (n div 10) @ [''0123456789'' ! (n mod 10)])"

declare str_nat.simps [simp del]

record weighted_explanation =
  we_helper_id :: string
  we_explanation :: string
  we_weight :: real
  we_contribution :: real

record explanation_aggregate =
  ea_aggregated_explanations :: "weighted_explanation list"
  ea_total_helpers :: nat
  ea_weight_distribution :: "real list"
  ea_primary_explanation :: string

text \<open>
  The list comprehension divides every weight by \<^verbatim>\<open>total_weight\<close>: on a non-empty list
  whose sum is zero the first division raises \<^verbatim>\<open>ZeroDivisionError\<close>; on an empty list no
  division happens and \<^verbatim>\<open>weighted_explanations[0]\<close> raises \<^verbatim>\<open>IndexError\<close>.
  \<^verbatim>\<open>list.sort(key=..., reverse=True)\<close> is stable, as is \<^const>\<open>sort_key\<close> on the negated
  key: entries of equal contribution keep their order.
\<close>

definition explanation_aggregation ::
  "string list \<Rightarrow> real list \<Rightarrow> py_error + explanation_aggregate" where
  "explanation_aggregation explanations weights =
    (if length explanations \<noteq> length weights then Inl ValueError
     else
       let total_weight = sum_list weights in
       if weights \<noteq> [] \<and> total_weight = 0 then Inl ZeroDivisionError
       else
         let normalized_weights = map (\<lambda>w. w / total_weight) weights;
             weighted_explanations =
               sort_key (\<lambda>x. - we_contribution x)
                 (map (\<lambda>(i, explanation, weight).
                        \<lparr>we_helper_id = ''helper_'' @ str_nat (i + 1),
                         we_explanation = explanation,
                         we_weight = weight,
                         we_contribution = weight * 100\<rparr>)
                    (enumerate 0 (zip explanations normalized_weights)))
         in case weighted_explanations of
              [] \<Rightarrow> Inl IndexError
            | first # _ \<Rightarrow>
                Inr \<lparr>ea_aggregated_explanations = weighted_explanations,
                     ea_total_helpers = length explanations,
                     ea_weight_distribution = normalized_weights,
                     ea_primary_explanation = we_explanation first\<rparr>)"

subsection \<open>\<^verbatim>\<open>keplers_third_law\<close>\<close>

record kepler_result =
  k3_orbital_period_days :: real
  k3_orbital_period_years :: "real option"  \<comment> \<open>key present only for \<^verbatim>\<open>distance_to_period\<close>\<close>
  k3_orbital_distance_au :: real
  k3_orbital_distance_m :: real
  k3_stellar_mass_solar :: real
  k3_planet_mass_earth :: real
  k3_total_mass_kg :: real
  k3_calculation_type :: string

text \<open>
  \<^verbatim>\<open>x ** (1/3)\<close> on Python floats is \<open>x powr (1/3)\<close> for \<open>x \<ge> 0\<close> and a complex number for
  \<open>x < 0\<close>; \<^verbatim>\<open>np.sqrt\<close> of a negative number is NaN; the float division by
  \<^verbatim>\<open>G * total_mass\<close> raises when that product is zero.
\<close>

definition keplers_third_law ::
  "real \<Rightarrow> real \<Rightarrow> real option \<Rightarrow> real option \<Rightarrow> py_error + kepler_result" where
  "keplers_third_law stellar_mass planet_mass orbital_period orbital_distance =
    (let M_s = stellar_mass * M_sun;
         M_p = (if planet_mass \<noteq> 0 then planet_mass * M_earth else 0);
         total_mass = M_s + M_p
     in case orbital_period of
          Some period \<Rightarrow>
            let P_sec = period * 24 * 3600;
                cube = (G * total_mass * P_sec ^ 2) / (4 * pi ^ 2)
            in if cube < 0 then Inl Not_a_real
               else
                 let a_m = cube powr (1 / 3);
                     a_au = a_m / AU
                 in Inr \<lparr>k3_orbital_period_days = period,
                         k3_orbital_period_years = None,
                         k3_orbital_distance_au = a_au,
                         k3_orbital_distance_m = a_m,
                         k3_stellar_mass_solar = stellar_mass,
                         k3_planet_mass_earth = planet_mass,
                         k3_total_mass_kg = total_mass,
                         k3_calculation_type = ''period_to_distance''\<rparr>
        | None \<Rightarrow>
            (case orbital_distance of
               Some distance \<Rightarrow>
                 let a_m = distance * AU in
                 if G * total_mass = 0 then Inl ZeroDivisionError
                 else
                   let square = (4 * pi ^ 2 * a_m ^ 3) / (G * total_mass) in
                   if square < 0 then Inl Not_a_real
                   else
                     let P_sec = sqrt square;
                         P_days = P_sec / (24 * 3600);
                         P_years = P_days / 365.25
                     in Inr \<lparr>k3_orbital_period_days = P_days,
                             k3_orbital_period_years = Some P_years,
                             k3_orbital_distance_au = distance,
                             k3_orbital_distance_m = a_m,
                             k3_stellar_mass_solar = stellar_mass,
                             k3_planet_mass_earth = planet_mass,
                             k3_total_mass_kg = total_mass,
                             k3_calculation_type = ''distance_to_period''\<rparr>
             | None \<Rightarrow> Inl ValueError))"

subsection \<open>The feedback route \<^verbatim>\<open>provide_feedback\<close> of the API server\<close>

text \<open>
  The route works on two stores: the server's own \<^verbatim>\<open>analysis_history\<close>, a dictionary from
  analysis id to the stored analysis, and the \<^verbatim>\<open>aggregation_history\<close> list of the
  federated system. The class \<^verbatim>\<open>FederatedAISystem\<close> is imported from
  \<^verbatim>\<open>federated_ai_system\<close>, a module outside the embedded sources, so its state is an
  opaque \<open>'f\<close> and the three members the route uses are parameters: the attribute
  \<^verbatim>\<open>aggregation_history\<close> (of each entry only \<^verbatim>\<open>input_data.get('star_id')\<close> and
  \<^verbatim>\<open>timestamp\<close> are read), and the methods \<^verbatim>\<open>provide_human_feedback\<close> and
  \<^verbatim>\<open>get_system_status\<close>, each of which may raise (an \<open>'e\<close>) and may change the state.

  A \<^verbatim>\<open>datetime\<close> is a number of microseconds; \<^verbatim>\<open>datetime.now()\<close> is the argument
  \<open>now\<close>. Logging and the WebSocket broadcast (which catches its own exceptions) are not
  modelled; of an \<^verbatim>\<open>HTTPException\<close> only the status code is kept.
\<close>

type_synonym datetime = int

record feedback_request =
  rq_analysis_id :: string
  rq_is_correct :: bool
  rq_ground_truth :: "bool option"
  rq_user_notes :: "string option"

record stored_feedback =
  sf_is_correct :: bool
  sf_ground_truth :: "bool option"
  sf_user_notes :: "string option"
  sf_timestamp :: datetime

record 'a stored_analysis =
  sa_star_id :: "string option"  \<comment> \<open>\<^verbatim>\<open>stored_analysis['request'].get('star_id')\<close>\<close>
  sa_timestamp :: datetime
  sa_feedback :: "stored_feedback option"  \<comment> \<open>\<open>None\<close>: the key \<^verbatim>\<open>feedback\<close> is absent\<close>
  sa_rest :: 'a  \<comment> \<open>the rest of the request, the result, the scientific calculations\<close>

record aggregation_entry =
  ae_star_id :: "string option"  \<comment> \<open>\<^verbatim>\<open>analysis['input_data'].get('star_id')\<close>\<close>
  ae_timestamp :: datetime

record system_status =
  st_system_accuracy :: real
  st_total_feedback :: nat

record ('f, 'e) federated_ops =
  aggregation_history :: "'f \<Rightarrow> aggregation_entry list"
  provide_human_feedback :: "'f \<Rightarrow> nat \<Rightarrow> bool \<Rightarrow> bool option \<Rightarrow> ('e + unit) \<times> 'f"
  get_system_status :: "'f \<Rightarrow> ('e + system_status) \<times> 'f"

record ('f, 'a) api_state =
  federated_system :: 'f
  analysis_history :: "string \<rightharpoonup> 'a stored_analysis"

datatype http_error = HTTPException nat

record feedback_response =
  rs_message :: string
  rs_analysis_id :: string
  rs_updated_system_accuracy :: real
  rs_total_feedback_count :: nat

text \<open>
  The search loop: the first entry with the stored analysis' star id whose timestamp is
  less than 60 seconds away.
\<close>

fun find_analysis_index ::
  "nat \<Rightarrow> aggregation_entry list \<Rightarrow> 'a stored_analysis \<Rightarrow> nat option" where
  "find_analysis_index i [] stored_analysis = None"
| "find_analysis_index i (analysis # rest) stored_analysis =
    (if ae_star_id analysis = sa_star_id stored_analysis \<and>
        \<bar>ae_timestamp analysis - sa_timestamp stored_analysis\<bar> < 60 * 1000000
     then Some i
     else find_analysis_index (Suc i) rest stored_analysis)"

text \<open>
  The whole body stands in \<^verbatim>\<open>try: ... except Exception as e: raise
  HTTPException(status_code=500, ...)\<close>. The two \<^verbatim>\<open>HTTPException(status_code=404)\<close> raised
  inside the \<^verbatim>\<open>try\<close> are exceptions too, so they leave the route as status 500, as does
  anything the federated system raises. The result is the outcome and the state the
  call leaves behind.
\<close>

definition provide_feedback ::
  "('f, 'e) federated_ops \<Rightarrow> datetime \<Rightarrow> ('f, 'a) api_state \<Rightarrow> feedback_request
    \<Rightarrow> (http_error + feedback_response) \<times> ('f, 'a) api_state" where
  "provide_feedback ops now api request =
    (case analysis_history api (rq_analysis_id request) of
       None \<Rightarrow> (Inl (HTTPException 500), api)
     | Some stored_analysis \<Rightarrow>
         (case find_analysis_index 0 (aggregation_history ops (federated_system api))
                 stored_analysis of
            None \<Rightarrow> (Inl (HTTPException 500), api)
          | Some analysis_index \<Rightarrow>
              (case provide_human_feedback ops (federated_system api) analysis_index
                      (rq_is_correct request) (rq_ground_truth request) of
                 (Inl e, fs) \<Rightarrow> (Inl (HTTPException 500), api\<lparr>federated_system := fs\<rparr>)
               | (Inr u, fs) \<Rightarrow>
                   let feedback = \<lparr>sf_is_correct = rq_is_correct request,
                                   sf_ground_truth = rq_ground_truth request,
                                   sf_user_notes = rq_user_notes request,
                                   sf_timestamp = now\<rparr>;
                       history = (analysis_history api)
                         (rq_analysis_id request \<mapsto>
                            stored_analysis\<lparr>sa_feedback := Some feedback\<rparr>)
                   in (case get_system_status ops fs of
                         (Inl e, fs') \<Rightarrow>
                           (Inl (HTTPException 500),
                            \<lparr>federated_system = fs', analysis_history = history\<rparr>)
                       | (Inr status, fs') \<Rightarrow>
                           (Inr \<lparr>rs_message = ''Feedback received and system updated'',
                                 rs_analysis_id = rq_analysis_id request,
                                 rs_updated_system_accuracy = st_system_accuracy status,
                                 rs_total_feedback_count = st_total_feedback status\<rparr>,
                            \<lparr>federated_system = fs', analysis_history = history\<rparr>)))))"






section \<open>Properties\<close>

subsection \<open>Feedback update\<close>

lemma clamp_max_min: "lo \<le> hi \<Longrightarrow> max lo (min hi x) = clamp x lo hi"
  by (simp add: clamp_def max_def min_def)

text \<open>
  C2. The weight returned by a feedback update is the one the specification's formula
  gives: the current weight minus the adjustment, clamped to [0.1, 2.0], where the
  adjustment is the learning rate times the loss gradient at the prediction clamped to
  [0.001, 0.999], times 0.01 (correct) or -0.01 (incorrect).
\<close>

theorem feedback_updated_weight_formula:
  "fb_updated_weight (feedback_based_knowledge_weight w p is_correct eta)
     = spec_new_weight w p is_correct eta"
  by (simp add: feedback_based_knowledge_weight_def Let_def spec_new_weight_def
      spec_adjustment_def spec_loss_gradient_def clamp_max_min [symmetric])

text \<open>
  C4. Whatever the current weight (inside [0.1, 2.0] or not), the prediction, the
  correctness flag and the learning rate, the updated weight lies in [0.1, 2.0].
\<close>

theorem feedback_weight_in_range:
  "0.1 \<le> fb_updated_weight (feedback_based_knowledge_weight w p is_correct eta) \<and>
   fb_updated_weight (feedback_based_knowledge_weight w p is_correct eta) \<le> 2"
  by (simp add: feedback_based_knowledge_weight_def Let_def)



subsection \<open>Prediction aggregation\<close>

lemma aggregate_prediction_returns:
  "length predictions = length weights \<Longrightarrow>
   aggregate_prediction predictions weights =
     Inr \<lparr>ap_aggregated_prediction =
            (if 0 < sum_list weights
             then sum_list (map (\<lambda>(p, w). p * w) (zip predictions weights)) / sum_list weights
             else 0.5),
          ap_individual_predictions = predictions,
          ap_weights = weights,
          ap_prediction_variance = np_var predictions,
          ap_confidence =
            1 - (case np_var predictions of None \<Rightarrow> 1 | Some v \<Rightarrow> min 1 (2 * v)),
          ap_total_weight = sum_list weights\<rparr>"
  by (simp add: aggregate_prediction_def Let_def)

lemma sum_list_nth: "sum_list xs = (\<Sum>i<length xs. xs ! i)" for xs :: "real list"
  by (simp add: sum_list_sum_nth atLeast0LessThan)

lemma weighted_sum_nth:
  fixes ps ws :: "real list"
  assumes "length ps = length ws"
  shows "sum_list (map (\<lambda>(p, w). p * w) (zip ps ws)) = (\<Sum>i<length ps. ws ! i * ps ! i)"
proof -
  have "sum_list (map (\<lambda>(p, w). p * w) (zip ps ws))
      = (\<Sum>i<length ps. (\<lambda>(p, w). p * w) (zip ps ws ! i))"
    using assms by (simp add: sum_list_sum_nth atLeast0LessThan)
  also have "\<dots> = (\<Sum>i<length ps. ws ! i * ps ! i)"
    using assms by (intro sum.cong) (simp_all add: mult.commute)
  finally show ?thesis .
qed

text \<open>
  C1, as the code has it. For a non-empty list of predictions and as many weights the
  call returns, and the aggregated prediction is the weighted mean when the sum of the
  weights is positive, and 0.5 when the sum is zero or negative (the guard of the source
  is \<^verbatim>\<open>total_weight > 0\<close>, not \<^verbatim>\<open>total_weight != 0\<close>).
\<close>

theorem aggregated_prediction_by_sign:
  assumes "predictions \<noteq> []" and "length predictions = length weights"
  shows "\<exists>r. aggregate_prediction predictions weights = Inr r \<and>
    ap_aggregated_prediction r =
      (if 0 < (\<Sum>i<length weights. weights ! i) then weighted_mean predictions weights else 0.5)"
  using assms
  by (simp add: aggregate_prediction_returns weighted_mean_def weighted_sum_nth sum_list_nth
      mult.commute)

theorem aggregated_prediction_by_sign_witness:
  "(\<exists>r. aggregate_prediction [0.8, 0.4] [1, 1] = Inr r \<and> ap_aggregated_prediction r = 0.6)
   \<and> (\<exists>r. aggregate_prediction [0.8, 0.4] [0, 0] = Inr r \<and> ap_aggregated_prediction r = 0.5)"
  using aggregated_prediction_by_sign [of "[0.8, 0.4]" "[1, 1]"]
    aggregated_prediction_by_sign [of "[0.8, 0.4]" "[0, 0]"]
  by (simp add: weighted_mean_def)

text \<open>
  C1 as stated fails: with the single prediction 1 and the single weight -1 the sum of
  the weights is nonzero and the weighted mean is 1, but the call returns 0.5.
\<close>

theorem aggregated_prediction_counterexample:
  "aggregate_prediction [1] [- 1] =
     Inr \<lparr>ap_aggregated_prediction = 0.5, ap_individual_predictions = [1],
          ap_weights = [- 1], ap_prediction_variance = Some 0, ap_confidence = 1,
          ap_total_weight = - 1\<rparr>
   \<and> (\<Sum>i<length [- 1 :: real]. [- 1 :: real] ! i) \<noteq> 0
   \<and> weighted_mean [1] [- 1] = 1"
  by (simp add: aggregate_prediction_returns weighted_mean_def np_var_def mean_def)

lemma np_var_population:
  "ps \<noteq> [] \<Longrightarrow> np_var ps = Some (population_variance ps)"
  by (simp add: np_var_def population_variance_def mean_def sum_list_sum_nth atLeast0LessThan)

lemma population_variance_nonneg: "0 \<le> population_variance ps"
  unfolding population_variance_def
  by (intro divide_nonneg_nonneg sum_nonneg) simp_all

text \<open>
  C3. For a non-empty list of predictions (and as many weights) the call returns, and
  the confidence is \<open>1 - 2 * variance\<close> clamped to [0, 1], the variance being the
  unweighted population variance of the predictions.
\<close>

theorem confidence_formula:
  assumes "predictions \<noteq> []" and "length predictions = length weights"
  shows "\<exists>r. aggregate_prediction predictions weights = Inr r \<and>
    ap_confidence r = clamp (1 - 2 * population_variance predictions) 0 1"
  using assms population_variance_nonneg [of predictions]
  by (simp add: aggregate_prediction_returns np_var_population clamp_def min_def)

theorem confidence_formula_witness:
  "\<exists>r. aggregate_prediction [0.8, 0.4] [1, 1] = Inr r \<and> ap_confidence r = 0.92"
  using confidence_formula [of "[0.8, 0.4]" "[1, 1]"]
  by (simp add: population_variance_def clamp_def power2_eq_square)

text \<open>
  C9. For a fixed non-empty list of predictions, two calls with any two weight vectors
  of matching length both return, with the same confidence.
\<close>

theorem confidence_ignores_weights:
  assumes "predictions \<noteq> []"
    and "length weights1 = length predictions" and "length weights2 = length predictions"
  shows "\<exists>r1 r2. aggregate_prediction predictions weights1 = Inr r1 \<and>
    aggregate_prediction predictions weights2 = Inr r2 \<and>
    ap_confidence r1 = ap_confidence r2"
  using assms by (simp add: aggregate_prediction_returns)

theorem confidence_ignores_weights_witness:
  "\<exists>r1 r2. aggregate_prediction [0.8, 0.4] [1, 1] = Inr r1 \<and>
    aggregate_prediction [0.8, 0.4] [2, 0.1] = Inr r2 \<and>
    ap_confidence r1 = ap_confidence r2"
  using confidence_ignores_weights [of "[0.8, 0.4]" "[1, 1]" "[2, 0.1]"]
  by simp







subsection \<open>Explanation aggregation\<close>

lemma explanation_aggregation_returns:
  assumes "length explanations = length weights" and "weights \<noteq> []" and "sum_list weights \<noteq> 0"
  shows "\<exists>r. explanation_aggregation explanations weights = Inr r"
proof -
  let ?entries = "sort_key (\<lambda>x. - we_contribution x)
     (map (\<lambda>(i, explanation, weight).
        \<lparr>we_helper_id = ''helper_'' @ str_nat (i + 1), we_explanation = explanation,
         we_weight = weight, we_contribution = weight * 100\<rparr>)
       (enumerate 0 (zip explanations (map (\<lambda>w. w / sum_list weights) weights))))"
  have "length ?entries = length weights"
    using assms(1) by simp
  then have "?entries \<noteq> []"
    using assms(2) by (metis length_0_conv)
  then obtain first rest where "?entries = first # rest"
    by (cases ?entries) simp_all
  then show ?thesis
    using assms by (simp add: explanation_aggregation_def Let_def)
qed

lemma explanation_aggregation_zero_sum_raises:
  "length explanations = length weights \<Longrightarrow> weights \<noteq> [] \<Longrightarrow> sum_list weights = 0 \<Longrightarrow>
   explanation_aggregation explanations weights = Inl ZeroDivisionError"
  by (simp add: explanation_aggregation_def)

text \<open>
  C7 does not hold of the code. One helper whose weight is 0: the prediction
  aggregation returns (the neutral 0.5), the explanation aggregation raises
  \<^verbatim>\<open>ZeroDivisionError\<close> where it normalises the weights.
\<close>

theorem explanation_aggregation_zero_weight:
  "explanation_aggregation [''Strong transit signal''] [0] = Inl ZeroDivisionError
   \<and> aggregate_prediction [0.7] [0] =
       Inr \<lparr>ap_aggregated_prediction = 0.5, ap_individual_predictions = [0.7],
            ap_weights = [0], ap_prediction_variance = Some 0, ap_confidence = 1,
            ap_total_weight = 0\<rparr>"
  by (simp add: explanation_aggregation_def aggregate_prediction_returns np_var_def mean_def)

subsection \<open>Kepler's third law\<close>

text \<open>
  C10. For positive stellar mass, planet mass and orbital distance \<open>a\<close> (in AU), the
  call with the distance returns a period, the call with that period and the same
  masses returns, and its orbital distance in AU is \<open>a\<close> again.
\<close>

theorem kepler_round_trip:
  assumes "0 < stellar_mass" and "0 < planet_mass" and "0 < a"
  shows "\<exists>r1 r2.
    keplers_third_law stellar_mass planet_mass None (Some a) = Inr r1 \<and>
    k3_calculation_type r1 = ''distance_to_period'' \<and>
    keplers_third_law stellar_mass planet_mass (Some (k3_orbital_period_days r1)) None = Inr r2 \<and>
    k3_calculation_type r2 = ''period_to_distance'' \<and>
    k3_orbital_distance_au r2 = a"
proof -
  define total_mass where "total_mass = stellar_mass * M_sun + planet_mass * M_earth"
  define a_m where "a_m = a * AU"
  define square where "square = (4 * pi ^ 2 * a_m ^ 3) / (G * total_mass)"
  define P_days where "P_days = sqrt square / (24 * 3600)"
  have G: "0 < G" and AU: "0 < AU" and "0 < M_sun" and "0 < M_earth"
    by (simp_all add: G_def AU_def M_sun_def M_earth_def)
  with assms have tm: "0 < total_mass"
    by (simp add: total_mass_def add_pos_pos)
  have am: "0 < a_m"
    using assms AU by (simp add: a_m_def)
  have sq: "0 < square"
    using G tm am by (simp add: square_def)
  have P_sec: "(P_days * 24 * 3600) ^ 2 = square"
    using sq by (simp add: P_days_def)
  have "(G * total_mass * (P_days * 24 * 3600) ^ 2) / (4 * pi ^ 2) = a_m ^ 3"
    unfolding P_sec using G tm by (simp add: square_def)
  moreover have "(a_m ^ 3) powr (1 / 3) = a_m"
    using am by (simp add: powr_powr flip: powr_numeral)
  ultimately have
    cube: "((G * total_mass * (P_days * 24 * 3600) ^ 2) / (4 * pi ^ 2)) powr (1 / 3) = a_m"
    and cube_nonneg: "\<not> (G * total_mass * (P_days * 24 * 3600) ^ 2) / (4 * pi ^ 2) < 0"
    using am by simp_all
  have pm: "(if planet_mass \<noteq> 0 then planet_mass * M_earth else 0) = planet_mass * M_earth"
    using assms by simp
  have au: "a_m / AU = a"
    using AU by (simp add: a_m_def)
  have first: "keplers_third_law stellar_mass planet_mass None (Some a) =
    Inr \<lparr>k3_orbital_period_days = P_days,
         k3_orbital_period_years = Some (P_days / 365.25),
         k3_orbital_distance_au = a,
         k3_orbital_distance_m = a_m,
         k3_stellar_mass_solar = stellar_mass,
         k3_planet_mass_earth = planet_mass,
         k3_total_mass_kg = total_mass,
         k3_calculation_type = ''distance_to_period''\<rparr>"
    using assms G tm sq
    by (simp add: keplers_third_law_def Let_def total_mass_def [symmetric] a_m_def [symmetric]
        square_def [symmetric] P_days_def)
  have second: "keplers_third_law stellar_mass planet_mass (Some P_days) None =
    Inr \<lparr>k3_orbital_period_days = P_days,
         k3_orbital_period_years = None,
         k3_orbital_distance_au = a,
         k3_orbital_distance_m = a_m,
         k3_stellar_mass_solar = stellar_mass,
         k3_planet_mass_earth = planet_mass,
         k3_total_mass_kg = total_mass,
         k3_calculation_type = ''period_to_distance''\<rparr>"
    unfolding keplers_third_law_def Let_def pm option.case total_mass_def [symmetric]
    by (simp only: cube cube_nonneg if_False au)
  show ?thesis
    by (simp add: first second)
qed

theorem kepler_round_trip_witness:
  "\<exists>r1 r2.
    keplers_third_law 1 1 None (Some 1) = Inr r1 \<and>
    k3_calculation_type r1 = ''distance_to_period'' \<and>
    keplers_third_law 1 1 (Some (k3_orbital_period_days r1)) None = Inr r2 \<and>
    k3_calculation_type r2 = ''period_to_distance'' \<and>
    k3_orbital_distance_au r2 = 1"
  using kepler_round_trip [of 1 1 1]
  by simp

subsection \<open>The feedback route\<close>

lemma provide_feedback_failure_is_500:
  "fst (provide_feedback ops now api request) = Inl e \<Longrightarrow> e = HTTPException 500"
  by (auto simp: provide_feedback_def Let_def split: option.splits prod.splits sum.splits)





end
